theory Spec2Isabelle
  imports Main "HOL-Library.Word"
begin

section \<open>Shared data model\<close>

text \<open>
  Bytes are 8-bit words. A \<open>types.Bytes32\<close> is a byte array of fixed length 32 in the
  source; here it is a byte list, and nothing below depends on its length.
\<close>

type_synonym byte = "8 word"
type_synonym bytes = "byte list"
type_synonym Bytes32 = "byte list"

text \<open>
  Go errors. \<open>Err\<close> is an error built from a message (\<open>fmt.Errorf\<close>,
  \<open>errors.Errorf\<close>, or any error of a collaborator); \<open>WithStack\<close> is
  \<open>errors.WithStack\<close>, which wraps an error and keeps its message;
  \<open>ErrBadRequest\<close> is \<open>jsonhttp.NewErrBadRequest\<close>; \<open>ErrAlreadyStarted\<close> is the
  sentinel \<open>tmcommon.ErrAlreadyStarted\<close>, which the source compares by identity.
\<close>

datatype error =
    Err string
  | WithStack error
  | ErrBadRequest string
  | ErrAlreadyStarted

fun Error :: "error \<Rightarrow> string" where
  "Error (Err m) = m"
| "Error (WithStack e) = Error e"
| "Error (ErrBadRequest m) = m"
| "Error ErrAlreadyStarted = ''already started''"

text \<open>\<open>cs.SegmentReference\<close>, \<open>cs.Link\<close> with the fields of \<open>Meta\<close> the sources read.\<close>

record SegmentReference =
  refProcess :: string
  refLinkHash :: Bytes32

record LinkMeta =
  Process :: string
  Type :: string
  Refs :: "SegmentReference list"

record Link =
  State :: string
  Meta :: LinkMeta
  Signatures :: "string list"

section \<open>Package validator: the composite validator\<close>

text \<open>
  The interface \<open>Validator\<close>: a value with three methods. The store reader handed to
  \<open>Validate\<close> is the type parameter \<open>'r\<close>; the context argument carries no data.
  \<open>Hash\<close> takes no argument, so it is its result: an error or the digest.
\<close>

record 'r Validator =
  Validate :: "'r \<Rightarrow> Link \<Rightarrow> error option"
  ShouldValidate :: "Link \<Rightarrow> bool"
  Hash :: "error + Bytes32"

record 'r multiValidator =
  validators :: "'r Validator list"

text \<open>
  The loop of \<open>multiValidator.Hash\<close>: \<open>b\<close> is the buffer the child digests are
  appended to; the first child whose \<open>Hash\<close> fails ends the loop with
  \<open>errors.WithStack(err)\<close>.
\<close>

fun hashChildren :: "bytes \<Rightarrow> 'r Validator list \<Rightarrow> error + bytes" where
  "hashChildren b [] = Inr b"
| "hashChildren b (validator # rest) =
     (case Hash validator of
        Inl err \<Rightarrow> Inl (WithStack err)
      | Inr validatorHash \<Rightarrow> hashChildren (b @ validatorHash) rest)"

text \<open>\<open>multiValidator.Hash\<close>; \<open>sha256Sum256\<close> stands for \<open>crypto/sha256.Sum256\<close>.\<close>

definition multiValidator_Hash ::
  "(bytes \<Rightarrow> Bytes32) \<Rightarrow> 'r multiValidator \<Rightarrow> error + Bytes32" where
  "multiValidator_Hash sha256Sum256 v =
     (case hashChildren [] (validators v) of
        Inl err \<Rightarrow> Inl err
      | Inr b \<Rightarrow> Inr (sha256Sum256 b))"

text \<open>\<open>multiValidator.ShouldValidate\<close>.\<close>

definition multiValidator_ShouldValidate :: "'r multiValidator \<Rightarrow> Link \<Rightarrow> bool" where
  "multiValidator_ShouldValidate v link = True"

text \<open>\<open>multiValidator.matchValidators\<close>: the children that accept the link, in order.\<close>

fun matchLoop :: "'r Validator list \<Rightarrow> 'r Validator list \<Rightarrow> Link \<Rightarrow> 'r Validator list" where
  "matchLoop linkValidators [] l = linkValidators"
| "matchLoop linkValidators (child # rest) l =
     (if ShouldValidate child l
      then matchLoop (linkValidators @ [child]) rest l
      else matchLoop linkValidators rest l)"

definition matchValidators :: "'r multiValidator \<Rightarrow> Link \<Rightarrow> 'r Validator list" where
  "matchValidators v l = matchLoop [] (validators v) l"

text \<open>The second loop of \<open>multiValidator.Validate\<close>: stop at the first error.\<close>

fun validateChildren :: "'r Validator list \<Rightarrow> 'r \<Rightarrow> Link \<Rightarrow> error option" where
  "validateChildren [] r l = None"
| "validateChildren (child # rest) r l =
     (case Validate child r l of
        Some err \<Rightarrow> Some err
      | None \<Rightarrow> validateChildren rest r l)"

definition noMatchError :: "Link \<Rightarrow> error" where
  "noMatchError l =
     Err (''Validation failed: link with process: ['' @ Process (Meta l) @
          ''] and type: ['' @ Type (Meta l) @ ''] does not match any validator'')"

definition multiValidator_Validate :: "'r multiValidator \<Rightarrow> 'r \<Rightarrow> Link \<Rightarrow> error option" where
  "multiValidator_Validate v r l =
     (let linkValidators = matchValidators v l in
      if length linkValidators = 0 then Some (noMatchError l)
      else validateChildren linkValidators r l)"

text \<open>\<open>NewMultiValidator\<close>: the composite as a value of the interface.\<close>

definition NewMultiValidator :: "(bytes \<Rightarrow> Bytes32) \<Rightarrow> 'r Validator list \<Rightarrow> 'r Validator" where
  "NewMultiValidator sha256Sum256 vs =
     \<lparr> Validate = multiValidator_Validate \<lparr> validators = vs \<rparr>,
       ShouldValidate = multiValidator_ShouldValidate \<lparr> validators = vs \<rparr>,
       Hash = multiValidator_Hash sha256Sum256 \<lparr> validators = vs \<rparr> \<rparr>"

text \<open>Concrete values, for evaluating the definitions: a link and three validators.\<close>

definition linkSell :: Link where
  "linkSell = \<lparr> State = ''{}'', Meta = \<lparr> Process = ''p'', Type = ''sell'', Refs = [] \<rparr>,
                Signatures = [] \<rparr>"

definition acceptAll :: "unit Validator" where
  "acceptAll = \<lparr> Validate = (\<lambda>r l. None), ShouldValidate = (\<lambda>l. True), Hash = Inr [1] \<rparr>"

definition rejectSell :: "unit Validator" where
  "rejectSell = \<lparr> Validate = (\<lambda>r l. Some (Err ''rejected'')),
                  ShouldValidate = (\<lambda>l. Type (Meta l) = ''sell''), Hash = Inr [2, 3] \<rparr>"

definition onlyBuy :: "unit Validator" where
  "onlyBuy = \<lparr> Validate = (\<lambda>r l. Some (Err ''not for sale'')),
               ShouldValidate = (\<lambda>l. Type (Meta l) = ''buy''), Hash = Inl (Err ''no digest'') \<rparr>"

text \<open>A stand-in for a digest function, for evaluation only: the length of the input.\<close>

definition lengthDigest :: "bytes \<Rightarrow> Bytes32" where
  "lengthDigest b = [of_nat (length b)]"

subsection \<open>Properties of the composite validator\<close>

lemma hashChildren_find:
  "hashChildren b vs =
     (case find (\<lambda>c. isl (Hash c)) vs of
        None \<Rightarrow> Inr (b @ concat (map (\<lambda>c. projr (Hash c)) vs))
      | Some c \<Rightarrow> Inl (WithStack (projl (Hash c))))"
  by (induction vs arbitrary: b) (auto split: sum.splits option.splits)

text \<open>
  C9. The digest of a composite validator is SHA-256 applied to the concatenation of
  its children's digests, in list order; when a child's \<open>Hash\<close> fails, the composite
  fails with the error of the first such child (wrapped by \<open>errors.WithStack\<close>, which
  keeps the message). \<open>find\<close> returns the first child whose \<open>Hash\<close> is an error.
\<close>

theorem multiValidator_Hash_digest:
  "multiValidator_Hash sha256Sum256 v =
     (case find (\<lambda>c. isl (Hash c)) (validators v) of
        None \<Rightarrow> Inr (sha256Sum256 (concat (map (\<lambda>c. projr (Hash c)) (validators v))))
      | Some c \<Rightarrow> Inl (WithStack (projl (Hash c))))"
  by (simp add: multiValidator_Hash_def hashChildren_find split: option.splits)

theorem multiValidator_Hash_digest_witness:
  "multiValidator_Hash lengthDigest \<lparr> validators = [acceptAll, rejectSell] \<rparr>
     = Inr (lengthDigest [1, 2, 3]) \<and>
   multiValidator_Hash lengthDigest \<lparr> validators = [acceptAll, onlyBuy, rejectSell] \<rparr>
     = Inl (WithStack (Err ''no digest''))"
  using multiValidator_Hash_digest [of lengthDigest "\<lparr> validators = [acceptAll, rejectSell] \<rparr>"]
    multiValidator_Hash_digest
      [of lengthDigest "\<lparr> validators = [acceptAll, onlyBuy, rejectSell] \<rparr>"]
  by (simp add: acceptAll_def rejectSell_def onlyBuy_def)

lemma matchLoop_filter:
  "matchLoop acc vs l = acc @ filter (\<lambda>c. ShouldValidate c l) vs"
  by (induction vs arbitrary: acc) auto

lemma matchValidators_filter:
  "matchValidators v l = filter (\<lambda>c. ShouldValidate c l) (validators v)"
  by (simp add: matchValidators_def matchLoop_filter)

lemma validateChildren_find:
  "validateChildren cs r l =
     (case find (\<lambda>c. Validate c r l \<noteq> None) cs of
        None \<Rightarrow> None
      | Some c \<Rightarrow> Validate c r l)"
  by (induction cs) (auto split: option.splits)

text \<open>
  C10. Composite validation fails closed. When no child's \<open>ShouldValidate\<close> holds for
  the link, \<open>Validate\<close> returns the error "does not match any validator". When some
  child matches, the result is the error of the first matching child (in list order)
  that rejects the link, and success (\<open>None\<close>) when every matching child accepts it.
\<close>

theorem multiValidator_Validate_fail_closed:
  "((\<forall>c \<in> set (validators v). \<not> ShouldValidate c l) \<longrightarrow>
      multiValidator_Validate v r l = Some (noMatchError l)) \<and>
   ((\<exists>c \<in> set (validators v). ShouldValidate c l) \<longrightarrow>
      multiValidator_Validate v r l =
        (case find (\<lambda>c. Validate c r l \<noteq> None)
                (filter (\<lambda>c. ShouldValidate c l) (validators v)) of
           None \<Rightarrow> None
         | Some c \<Rightarrow> Validate c r l))"
  by (auto simp: multiValidator_Validate_def matchValidators_filter validateChildren_find
        filter_empty_conv Let_def)

theorem multiValidator_Validate_fail_closed_witness:
  "multiValidator_Validate \<lparr> validators = [onlyBuy] \<rparr> () linkSell = Some (noMatchError linkSell) \<and>
   multiValidator_Validate \<lparr> validators = [onlyBuy, acceptAll, rejectSell] \<rparr> () linkSell
     = Some (Err ''rejected'') \<and>
   multiValidator_Validate \<lparr> validators = [onlyBuy, acceptAll] \<rparr> () linkSell = None"
  using multiValidator_Validate_fail_closed [of "\<lparr> validators = [onlyBuy] \<rparr>" linkSell "()"]
    multiValidator_Validate_fail_closed
      [of "\<lparr> validators = [onlyBuy, acceptAll, rejectSell] \<rparr>" linkSell "()"]
    multiValidator_Validate_fail_closed
      [of "\<lparr> validators = [onlyBuy, acceptAll] \<rparr>" linkSell "()"]
  by (simp add: linkSell_def acceptAll_def rejectSell_def onlyBuy_def)

section \<open>Package tmstore: the client of the state machine\<close>

subsection \<open>Data exchanged with the state machine\<close>

text \<open>
  \<open>cs.Evidence\<close> and \<open>cs.Segment\<close>: a segment is a link with its hash and evidences.
\<close>

record Evidence =
  Backend :: string
  Provider :: string
  Proof :: string

record SegmentMeta =
  Evidences :: "Evidence list"
  LinkHashString :: string

record Segment =
  segLink :: Link
  segMeta :: SegmentMeta

text \<open>
  \<open>store.Event\<close>. Modelled from the spec: package \<open>store\<close> is not among the sources;
  an event is \<open>{type: SavedLinks | SavedEvidences, payload}\<close>. \<open>NewSavedLinks\<close> takes
  the links of the payload; \<open>NewSavedEvidences\<close> starts with an empty mapping from
  link hash to evidence, and \<open>AddSavedEvidence\<close> adds one entry to it.
\<close>

datatype Event =
    SavedLinks "Link list"
  | SavedEvidences "(Bytes32 \<times> Evidence) list"

definition NewSavedLinks :: "Link list \<Rightarrow> Event" where
  "NewSavedLinks links = SavedLinks links"

definition NewSavedEvidences :: Event where
  "NewSavedEvidences = SavedEvidences []"

fun AddSavedEvidence :: "Bytes32 \<Rightarrow> Evidence \<Rightarrow> Event \<Rightarrow> Event" where
  "AddSavedEvidence linkHash e (SavedEvidences m) =
     SavedEvidences (filter (\<lambda>p. fst p \<noteq> linkHash) m @ [(linkHash, e)])"
| "AddSavedEvidence linkHash e (SavedLinks links) = SavedLinks links"

text \<open>
  ABCI response codes are 32-bit; \<open>IsOK\<close> and \<open>IsErr\<close> are the methods of the ABCI
  response types (code zero is OK).
\<close>

type_synonym code = "32 word"

definition CodeTypeOK :: code where
  "CodeTypeOK = 0"

definition IsOK :: "code \<Rightarrow> bool" where
  "IsOK c = (c = CodeTypeOK)"

definition IsErr :: "code \<Rightarrow> bool" where
  "IsErr c = (c \<noteq> CodeTypeOK)"

text \<open>\<open>abci.ResponseQuery\<close>: \<open>Value\<close> is a byte slice, \<open>None\<close> when it is nil.\<close>

record ResponseQuery =
  queryCode :: code
  Value :: "bytes option"
  queryLog :: string

text \<open>\<open>abci.ResponseCheckTx\<close> and \<open>abci.ResponseDeliverTx\<close>, and the result of a commit.\<close>

record ResponseTx =
  Code :: code
  Log :: string

record ResultBroadcastTxCommit =
  CheckTx :: ResponseTx
  DeliverTx :: ResponseTx

text \<open>
  The names of the queries are string constants of package \<open>tmpop\<close>, which is not
  among the sources; only their identity matters here.
\<close>

datatype queryName =
    tmpop_PendingEvents
  | tmpop_GetInfo
  | tmpop_AddEvidence
  | tmpop_GetEvidences
  | tmpop_GetSegment
  | tmpop_FindSegments
  | tmpop_GetMapIDs

text \<open>
  The argument of a query (\<open>args interface{}\<close>): nil, a link hash, a segment filter, a
  map filter, or the pair of \<open>AddEvidence\<close>. Filters are opaque: they are only encoded.
\<close>

datatype queryArgs =
    NilArgs
  | LinkHashArgs Bytes32
  | SegmentFilterArgs string
  | MapFilterArgs string
  | EvidenceArgs Bytes32 Evidence

text \<open>\<open>tmpop.Tx\<close> as \<open>CreateLink\<close> builds it.\<close>

datatype TxType = tmpop_CreateLink

record Tx =
  txType :: TxType
  txLink :: Link
  txLinkHash :: Bytes32

text \<open>
  The Tendermint RPC client, as far as the store calls it: each method answers with an
  error or a result (the client never returns nil for both).
\<close>

record Client =
  ABCIQuery :: "queryName \<Rightarrow> bytes \<Rightarrow> error + ResponseQuery"
  BroadcastTxCommit :: "bytes \<Rightarrow> error + ResultBroadcastTxCommit"

text \<open>
  What the store uses from packages that are not among the sources, taken as
  parameters: \<open>tmpop.BuildQueryBinary\<close>, \<open>json.Marshal\<close> of a transaction,
  \<open>json.Unmarshal\<close> into a fresh target of each type (the target after the call, and
  the error), \<open>cs.Link.Hash\<close>, \<open>cs.Segment.IsEmpty\<close>, the constant
  \<open>tmpop.CodeTypeValidation\<close>, and \<open>fmt.Sprintf\<close> of a format with no argument and of
  a response under \<open>%v\<close>.
\<close>

record deps =
  BuildQueryBinary :: "queryArgs \<Rightarrow> error + bytes"
  marshalTx :: "Tx \<Rightarrow> error + bytes"
  unmarshalSegment :: "bytes \<Rightarrow> Segment \<times> error option"
  unmarshalSegmentSlice :: "bytes \<Rightarrow> Segment list \<times> error option"
  unmarshalStrings :: "bytes \<Rightarrow> string list \<times> error option"
  unmarshalEvidences :: "bytes \<Rightarrow> Evidence list \<times> error option"
  linkHashOf :: "Link \<Rightarrow> error + Bytes32"
  IsEmpty :: "Segment \<Rightarrow> bool"
  CodeTypeValidation :: code
  sprintf :: "string \<Rightarrow> string"
  sprintResponse :: "ResponseQuery \<Rightarrow> string"

text \<open>
  \<open>TMStore\<close>: the client and the registered event channels. A channel is known by a
  number.
\<close>

type_synonym chan = nat

record TMStore =
  tmClient :: Client
  storeEventChans :: "chan list"

text \<open>
  What an operation does besides returning: the calls it makes to the Tendermint
  client, and the events it sends on channels, both in order. A send is recorded when
  it is made; whether a receiver is ready for it is outside this model.
\<close>

datatype rpcCall =
    CallABCIQuery queryName bytes
  | CallBroadcastTxCommit bytes

record effects =
  rpc :: "rpcCall list"
  sent :: "(chan \<times> Event) list"

definition noEffects :: effects where
  "noEffects = \<lparr> rpc = [], sent = [] \<rparr>"

text \<open>A Go function either returns or panics (here: on a nil pointer dereference).\<close>

datatype 'a outcome = Return 'a | Panic

text \<open>A nil byte slice and an empty one are the same input for \<open>json.Unmarshal\<close>.\<close>

definition sliceOf :: "bytes option \<Rightarrow> bytes" where
  "sliceOf v = (case v of None \<Rightarrow> [] | Some b \<Rightarrow> b)"

subsection \<open>Operations\<close>

text \<open>\<open>TMStore.AddStoreEventChannel\<close>.\<close>

definition AddStoreEventChannel :: "TMStore \<Rightarrow> chan \<Rightarrow> TMStore" where
  "AddStoreEventChannel t storeChan = t\<lparr> storeEventChans := storeEventChans t @ [storeChan] \<rparr>"

text \<open>
  \<open>TMStore.sendQuery\<close>. The result is the pair the Go function returns: the response
  pointer (\<open>None\<close> is nil) and the error.
\<close>

definition sendQuery ::
  "deps \<Rightarrow> TMStore \<Rightarrow> queryName \<Rightarrow> queryArgs \<Rightarrow> effects
     \<Rightarrow> (ResponseQuery option \<times> error option) \<times> effects" where
  "sendQuery d t name args fx =
     (case BuildQueryBinary d args of
        Inl err \<Rightarrow> ((None, Some err), fx)
      | Inr query \<Rightarrow>
          (let fx1 = fx\<lparr> rpc := rpc fx @ [CallABCIQuery name query] \<rparr> in
           case ABCIQuery (tmClient t) name query of
             Inl err \<Rightarrow> ((None, Some err), fx1)
           | Inr response \<Rightarrow>
               if \<not> IsOK (queryCode response)
               then ((None, Some (Err (''NOK Response from TMPop: '' @ sprintResponse d response))), fx1)
               else ((Some response, None), fx1)))"

text \<open>\<open>TMStore.broadcastTx\<close>.\<close>

definition broadcastTx ::
  "deps \<Rightarrow> TMStore \<Rightarrow> Tx \<Rightarrow> effects
     \<Rightarrow> (ResultBroadcastTxCommit option \<times> error option) \<times> effects" where
  "broadcastTx d t tx fx =
     (case marshalTx d tx of
        Inl err \<Rightarrow> ((None, Some err), fx)
      | Inr txBytes \<Rightarrow>
          (let fx1 = fx\<lparr> rpc := rpc fx @ [CallBroadcastTxCommit txBytes] \<rparr> in
           case BroadcastTxCommit (tmClient t) txBytes of
             Inl err \<Rightarrow> ((None, Some err), fx1)
           | Inr result \<Rightarrow>
               if IsErr (Code (CheckTx result)) then
                 (if Code (CheckTx result) = CodeTypeValidation d
                  then ((None, Some (ErrBadRequest (Log (CheckTx result)))), fx1)
                  else ((None, Some (Err (sprintf d (Log (CheckTx result))))), fx1))
               else if IsErr (Code (DeliverTx result))
               then ((None, Some (Err (sprintf d (Log (DeliverTx result))))), fx1)
               else ((Some result, None), fx1)))"

text \<open>\<open>TMStore.CreateLink\<close>: the link hash (nil when hashing fails) and the error.\<close>

definition CreateLink ::
  "deps \<Rightarrow> TMStore \<Rightarrow> Link \<Rightarrow> effects \<Rightarrow> (Bytes32 option \<times> error option) \<times> effects" where
  "CreateLink d t link fx =
     (case linkHashOf d link of
        Inl err \<Rightarrow> ((None, Some err), fx)
      | Inr linkHash \<Rightarrow>
          (let tx = \<lparr> txType = tmpop_CreateLink, txLink = link, txLinkHash = linkHash \<rparr> in
           case broadcastTx d t tx fx of
             ((result, err), fx1) \<Rightarrow> ((Some linkHash, err), fx1)))"

text \<open>The loop \<open>for _, c := range t.storeEventChans { c <- event }\<close>.\<close>

fun sendAll :: "chan list \<Rightarrow> Event \<Rightarrow> (chan \<times> Event) list \<Rightarrow> (chan \<times> Event) list" where
  "sendAll [] event out = out"
| "sendAll (c # cs) event out = sendAll cs event (out @ [(c, event)])"

text \<open>\<open>TMStore.AddEvidence\<close>.\<close>

definition AddEvidence ::
  "deps \<Rightarrow> TMStore \<Rightarrow> Bytes32 \<Rightarrow> Evidence \<Rightarrow> effects \<Rightarrow> error option \<times> effects" where
  "AddEvidence d t linkHash evidence fx =
     (case sendQuery d t tmpop_AddEvidence (EvidenceArgs linkHash evidence) fx of
        ((response, Some err), fx1) \<Rightarrow> (Some err, fx1)
      | ((response, None), fx1) \<Rightarrow>
          (let evidenceEvent = AddSavedEvidence linkHash evidence NewSavedEvidences in
           (None, fx1\<lparr> sent := sendAll (storeEventChans t) evidenceEvent (sent fx1) \<rparr>)))"

text \<open>
  \<open>TMStore.GetEvidences\<close>: the result starts as an empty list, which is returned with
  the error when the query fails.
\<close>

definition GetEvidences ::
  "deps \<Rightarrow> TMStore \<Rightarrow> Bytes32 \<Rightarrow> effects \<Rightarrow> (Evidence list \<times> error option) outcome \<times> effects" where
  "GetEvidences d t linkHash fx =
     (case sendQuery d t tmpop_GetEvidences (LinkHashArgs linkHash) fx of
        ((response, Some err), fx1) \<Rightarrow> (Return ([], Some err), fx1)
      | ((None, None), fx1) \<Rightarrow> (Panic, fx1)
      | ((Some response, None), fx1) \<Rightarrow>
          (case Value response of
             None \<Rightarrow> (Return ([], None), fx1)
           | Some v \<Rightarrow> (Return (unmarshalEvidences d v), fx1)))"

text \<open>\<open>TMStore.GetSegment\<close>: the segment pointer (\<open>None\<close> is nil) and the error.\<close>

definition GetSegment ::
  "deps \<Rightarrow> TMStore \<Rightarrow> Bytes32 \<Rightarrow> effects \<Rightarrow> (Segment option \<times> error option) outcome \<times> effects" where
  "GetSegment d t linkHash fx =
     (case sendQuery d t tmpop_GetSegment (LinkHashArgs linkHash) fx of
        ((response, Some err), fx1) \<Rightarrow> (Return (None, Some err), fx1)
      | ((None, None), fx1) \<Rightarrow> (Panic, fx1)
      | ((Some response, None), fx1) \<Rightarrow>
          (case Value response of
             None \<Rightarrow> (Return (None, None), fx1)
           | Some v \<Rightarrow>
               (case unmarshalSegment d v of
                  (segment, Some err) \<Rightarrow> (Return (Some segment, Some err), fx1)
                | (segment, None) \<Rightarrow>
                    if IsEmpty d segment then (Return (None, None), fx1)
                    else (Return (Some segment, None), fx1))))"

text \<open>\<open>TMStore.FindSegments\<close>.\<close>

definition FindSegments ::
  "deps \<Rightarrow> TMStore \<Rightarrow> string \<Rightarrow> effects \<Rightarrow> (Segment list \<times> error option) outcome \<times> effects" where
  "FindSegments d t segmentFilter fx =
     (case sendQuery d t tmpop_FindSegments (SegmentFilterArgs segmentFilter) fx of
        ((response, Some err), fx1) \<Rightarrow> (Return ([], Some err), fx1)
      | ((None, None), fx1) \<Rightarrow> (Panic, fx1)
      | ((Some response, None), fx1) \<Rightarrow>
          (Return (unmarshalSegmentSlice d (sliceOf (Value response))), fx1))"

text \<open>
  \<open>TMStore.GetMapIDs\<close>. The error of \<open>sendQuery\<close> is overwritten without being read,
  and \<open>response.Value\<close> is read whatever \<open>sendQuery\<close> returned: on a nil response the
  dereference panics.
\<close>

definition GetMapIDs ::
  "deps \<Rightarrow> TMStore \<Rightarrow> string \<Rightarrow> effects \<Rightarrow> (string list \<times> error option) outcome \<times> effects" where
  "GetMapIDs d t mapFilter fx =
     (case sendQuery d t tmpop_GetMapIDs (MapFilterArgs mapFilter) fx of
        ((None, err), fx1) \<Rightarrow> (Panic, fx1)
      | ((Some response, err), fx1) \<Rightarrow>
          (Return (unmarshalStrings d (sliceOf (Value response))), fx1))"

subsection \<open>Concrete values, for evaluating the operations\<close>

text \<open>
  The zero value of a segment, a set of codecs (the four bytes "null" decode to the zero
  segment, as \<open>json.Unmarshal\<close> leaves its target untouched on them), a client whose
  calls fail, a client with fixed answers, and some answers. The value 400 of the
  validation code is an example; nothing proved for all \<open>deps\<close> depends on it.
\<close>

definition zeroSegment :: Segment where
  "zeroSegment =
     \<lparr> segLink = \<lparr> State = [], Meta = \<lparr> Process = [], Type = [], Refs = [] \<rparr>, Signatures = [] \<rparr>,
       segMeta = \<lparr> Evidences = [], LinkHashString = [] \<rparr> \<rparr>"

definition exampleDeps :: deps where
  "exampleDeps =
     \<lparr> BuildQueryBinary = (\<lambda>args. Inr [1]),
       marshalTx = (\<lambda>tx. Inr [2]),
       unmarshalSegment = (\<lambda>b. if b = [110, 117, 108, 108] then (zeroSegment, None)
                                else (zeroSegment\<lparr> segLink := linkSell \<rparr>, None)),
       unmarshalSegmentSlice =
         (\<lambda>b. ([], if b = [] then Some (Err ''unexpected end of JSON input'') else None)),
       unmarshalStrings =
         (\<lambda>b. ([], if b = [] then Some (Err ''unexpected end of JSON input'') else None)),
       unmarshalEvidences = (\<lambda>b. ([], None)),
       linkHashOf = (\<lambda>l. Inr [7]),
       IsEmpty = (\<lambda>s. s = zeroSegment),
       CodeTypeValidation = 400,
       sprintf = (\<lambda>s. s),
       sprintResponse = queryLog \<rparr>"

definition clientDown :: Client where
  "clientDown =
     \<lparr> ABCIQuery = (\<lambda>name query. Inl (Err ''connection refused'')),
       BroadcastTxCommit = (\<lambda>tx. Inl (Err ''connection refused'')) \<rparr>"

definition clientAnswering :: "ResponseQuery \<Rightarrow> ResultBroadcastTxCommit \<Rightarrow> Client" where
  "clientAnswering response result =
     \<lparr> ABCIQuery = (\<lambda>name query. Inr response), BroadcastTxCommit = (\<lambda>tx. Inr result) \<rparr>"

definition okTx :: ResponseTx where
  "okTx = \<lparr> Code = 0, Log = [] \<rparr>"

definition rejectedTx :: ResponseTx where
  "rejectedTx = \<lparr> Code = 400, Log = ''reference not found'' \<rparr>"

definition okQuery :: "bytes option \<Rightarrow> ResponseQuery" where
  "okQuery v = \<lparr> queryCode = 0, Value = v, queryLog = [] \<rparr>"

definition evidenceOne :: Evidence where
  "evidenceOne = \<lparr> Backend = ''dummy'', Provider = ''1'', Proof = [] \<rparr>"

subsection \<open>Properties of the client\<close>

lemma sendAll_map: "sendAll cs event out = out @ map (\<lambda>c. (c, event)) cs"
  by (induction cs arbitrary: out) auto

text \<open>\<open>sendQuery\<close> returns a nil response exactly when it returns an error.\<close>

lemma sendQuery_nil_iff_error:
  "sendQuery d t name args fx = ((response, err), fx1) \<Longrightarrow> (response = None) = (err \<noteq> None)"
  by (auto simp: sendQuery_def Let_def split: sum.splits if_splits)

text \<open>
  How \<open>broadcastTx\<close> maps a rejection. At the check phase the validation code gives a
  bad-request error and any other code a plain error; at the delivery phase the code
  is not looked at.
\<close>

lemma broadcastTx_check_rejection:
  assumes "marshalTx d tx = Inr txBytes"
    and "BroadcastTxCommit (tmClient t) txBytes = Inr result"
    and "IsErr (Code (CheckTx result))"
  shows "fst (broadcastTx d t tx fx) =
           (None, Some (if Code (CheckTx result) = CodeTypeValidation d
                        then ErrBadRequest (Log (CheckTx result))
                        else Err (sprintf d (Log (CheckTx result)))))"
  using assms by (simp add: broadcastTx_def Let_def)

lemma broadcastTx_delivery_rejection:
  assumes "marshalTx d tx = Inr txBytes"
    and "BroadcastTxCommit (tmClient t) txBytes = Inr result"
    and "\<not> IsErr (Code (CheckTx result))"
    and "IsErr (Code (DeliverTx result))"
  shows "fst (broadcastTx d t tx fx) = (None, Some (Err (sprintf d (Log (DeliverTx result)))))"
  using assms by (simp add: broadcastTx_def Let_def)

text \<open>
  C3. Required: a rejected \<open>CreateLink\<close> surfaces the same, validation-class error
  whichever phase rejected it. The code does otherwise. Evaluated on one rejection
  (validation code, log "reference not found"): reported by the delivery phase it comes
  back as a plain error; reported by the check phase it comes back as a bad-request
  error.
\<close>

theorem CreateLink_delivery_rejection_not_validation_class:
  "fst (CreateLink exampleDeps
          \<lparr> tmClient = clientAnswering (okQuery None) \<lparr> CheckTx = okTx, DeliverTx = rejectedTx \<rparr>,
            storeEventChans = [] \<rparr> linkSell noEffects)
     = (Some [7], Some (Err ''reference not found'')) \<and>
   fst (CreateLink exampleDeps
          \<lparr> tmClient = clientAnswering (okQuery None) \<lparr> CheckTx = rejectedTx, DeliverTx = okTx \<rparr>,
            storeEventChans = [] \<rparr> linkSell noEffects)
     = (Some [7], Some (ErrBadRequest ''reference not found''))"
  by (simp add: CreateLink_def broadcastTx_def exampleDeps_def clientAnswering_def okTx_def
        rejectedTx_def IsErr_def CodeTypeOK_def noEffects_def)

text \<open>
  Three of the four read operations return whatever \<open>sendQuery\<close> answers;
  \<open>GetMapIDs\<close> panics exactly when \<open>sendQuery\<close> returns an error.
\<close>

lemma GetSegment_never_panics: "fst (GetSegment d t linkHash fx) \<noteq> Panic"
proof -
  obtain response err fx1
    where q: "sendQuery d t tmpop_GetSegment (LinkHashArgs linkHash) fx = ((response, err), fx1)"
    by (metis surj_pair)
  from sendQuery_nil_iff_error [OF q] show ?thesis
    by (auto simp: GetSegment_def q split: option.splits prod.splits)
qed

lemma FindSegments_never_panics: "fst (FindSegments d t segmentFilter fx) \<noteq> Panic"
proof -
  obtain response err fx1
    where q: "sendQuery d t tmpop_FindSegments (SegmentFilterArgs segmentFilter) fx
                = ((response, err), fx1)"
    by (metis surj_pair)
  from sendQuery_nil_iff_error [OF q] show ?thesis
    by (auto simp: FindSegments_def q split: option.splits prod.splits)
qed

lemma GetEvidences_never_panics: "fst (GetEvidences d t linkHash fx) \<noteq> Panic"
proof -
  obtain response err fx1
    where q: "sendQuery d t tmpop_GetEvidences (LinkHashArgs linkHash) fx = ((response, err), fx1)"
    by (metis surj_pair)
  from sendQuery_nil_iff_error [OF q] show ?thesis
    by (auto simp: GetEvidences_def q split: option.splits prod.splits)
qed

lemma GetMapIDs_panics_iff:
  "(fst (GetMapIDs d t mapFilter fx) = Panic) =
   (snd (fst (sendQuery d t tmpop_GetMapIDs (MapFilterArgs mapFilter) fx)) \<noteq> None)"
proof -
  obtain response err fx1
    where q: "sendQuery d t tmpop_GetMapIDs (MapFilterArgs mapFilter) fx = ((response, err), fx1)"
    by (metis surj_pair)
  from sendQuery_nil_iff_error [OF q] show ?thesis
    by (auto simp: GetMapIDs_def q split: option.splits prod.splits)
qed

text \<open>
  C4. Required: no read operation panics, also when the query transport returns an
  error. The code does otherwise. Evaluated with a client whose query fails
  ("connection refused"): \<open>GetMapIDs\<close> panics after the query, where \<open>FindSegments\<close>
  returns that error.
\<close>

theorem GetMapIDs_panics_on_query_error:
  "GetMapIDs exampleDeps \<lparr> tmClient = clientDown, storeEventChans = [] \<rparr> ''{}'' noEffects
     = (Panic, \<lparr> rpc = [CallABCIQuery tmpop_GetMapIDs [1]], sent = [] \<rparr>) \<and>
   fst (FindSegments exampleDeps \<lparr> tmClient = clientDown, storeEventChans = [] \<rparr> ''{}'' noEffects)
     = Return ([], Some (Err ''connection refused''))"
  by (simp add: GetMapIDs_def FindSegments_def sendQuery_def exampleDeps_def clientDown_def
        noEffects_def)

text \<open>
  C6. When the state machine answers the get-segment query for a link hash with an OK
  response that carries no segment (a nil value, or a value that decodes without error
  to an empty segment), \<open>GetSegment\<close> returns a nil segment and a nil error: not found
  is not an error, and an empty decoded segment is returned as nil.
\<close>

theorem GetSegment_not_found:
  assumes "BuildQueryBinary d (LinkHashArgs linkHash) = Inr query"
    and "ABCIQuery (tmClient t) tmpop_GetSegment query = Inr response"
    and "IsOK (queryCode response)"
    and "Value response = None \<or>
         (\<exists>v segment. Value response = Some v \<and> unmarshalSegment d v = (segment, None) \<and>
            IsEmpty d segment)"
  shows "fst (GetSegment d t linkHash fx) = Return (None, None)"
  using assms by (auto simp: GetSegment_def sendQuery_def Let_def)

theorem GetSegment_not_found_witness:
  "fst (GetSegment exampleDeps
          \<lparr> tmClient = clientAnswering (okQuery None) \<lparr> CheckTx = okTx, DeliverTx = okTx \<rparr>,
            storeEventChans = [] \<rparr> [9] noEffects) = Return (None, None) \<and>
   fst (GetSegment exampleDeps
          \<lparr> tmClient = clientAnswering (okQuery (Some [110, 117, 108, 108]))
                         \<lparr> CheckTx = okTx, DeliverTx = okTx \<rparr>,
            storeEventChans = [] \<rparr> [9] noEffects) = Return (None, None)"
  using GetSegment_not_found [of exampleDeps "[9]" "[1]"
      "\<lparr> tmClient = clientAnswering (okQuery None) \<lparr> CheckTx = okTx, DeliverTx = okTx \<rparr>,
         storeEventChans = [] \<rparr>" "okQuery None" noEffects]
    GetSegment_not_found [of exampleDeps "[9]" "[1]"
      "\<lparr> tmClient = clientAnswering (okQuery (Some [110, 117, 108, 108]))
                         \<lparr> CheckTx = okTx, DeliverTx = okTx \<rparr>,
         storeEventChans = [] \<rparr>" "okQuery (Some [110, 117, 108, 108])" noEffects]
  by (simp add: exampleDeps_def clientAnswering_def okQuery_def IsOK_def CodeTypeOK_def)

text \<open>
  C8. \<open>AddEvidence\<close> talks to the state machine through one direct query named
  \<open>AddEvidence\<close> and never through \<open>BroadcastTxCommit\<close> (no consensus transaction).
  It succeeds exactly when the query is built, sent and answered OK; then it sends one
  \<open>SavedEvidences\<close> event carrying the pair (link hash, evidence) on every registered
  channel, in registration order, before returning. When it fails it sends nothing.
\<close>

theorem AddEvidence_direct_query_and_event:
  assumes "AddEvidence d t linkHash evidence fx = (result, fx1)"
  shows "(\<exists>calls. rpc fx1 = rpc fx @ calls \<and> length calls \<le> 1 \<and>
            (\<forall>c \<in> set calls. \<exists>query. c = CallABCIQuery tmpop_AddEvidence query)) \<and>
         ((result = None) =
            (\<exists>query response. BuildQueryBinary d (EvidenceArgs linkHash evidence) = Inr query \<and>
               ABCIQuery (tmClient t) tmpop_AddEvidence query = Inr response \<and>
               IsOK (queryCode response))) \<and>
         (result = None \<longrightarrow>
            (\<exists>query. BuildQueryBinary d (EvidenceArgs linkHash evidence) = Inr query \<and>
               rpc fx1 = rpc fx @ [CallABCIQuery tmpop_AddEvidence query]) \<and>
            sent fx1 = sent fx @
              map (\<lambda>c. (c, SavedEvidences [(linkHash, evidence)])) (storeEventChans t)) \<and>
         (result \<noteq> None \<longrightarrow> sent fx1 = sent fx)"
  using assms
  by (auto simp: AddEvidence_def sendQuery_def Let_def sendAll_map NewSavedEvidences_def
        split: sum.splits if_splits)

theorem AddEvidence_direct_query_and_event_witness:
  "AddEvidence exampleDeps
     \<lparr> tmClient = clientAnswering (okQuery None) \<lparr> CheckTx = okTx, DeliverTx = okTx \<rparr>,
       storeEventChans = [1, 2] \<rparr> [9] evidenceOne noEffects
     = (None, \<lparr> rpc = [CallABCIQuery tmpop_AddEvidence [1]],
                sent = [(1, SavedEvidences [([9], evidenceOne)]),
                        (2, SavedEvidences [([9], evidenceOne)])] \<rparr>) \<and>
   AddEvidence exampleDeps \<lparr> tmClient = clientDown, storeEventChans = [1, 2] \<rparr> [9] evidenceOne noEffects
     = (Some (Err ''connection refused''),
        \<lparr> rpc = [CallABCIQuery tmpop_AddEvidence [1]], sent = [] \<rparr>)"
proof -
  let ?up = "\<lparr> tmClient = clientAnswering (okQuery None) \<lparr> CheckTx = okTx, DeliverTx = okTx \<rparr>,
               storeEventChans = [1, 2] \<rparr>"
  let ?down = "\<lparr> tmClient = clientDown, storeEventChans = [1, 2] \<rparr>"
  obtain r1 f1 where a: "AddEvidence exampleDeps ?up [9] evidenceOne noEffects = (r1, f1)"
    by (metis surj_pair)
  obtain r2 f2 where b: "AddEvidence exampleDeps ?down [9] evidenceOne noEffects = (r2, f2)"
    by (metis surj_pair)
  have q: "BuildQueryBinary exampleDeps (EvidenceArgs [9] evidenceOne) = Inr [1]"
    by (simp add: exampleDeps_def)
  from AddEvidence_direct_query_and_event [OF a] q
  have "r1 = None \<and> rpc f1 = [CallABCIQuery tmpop_AddEvidence [1]] \<and>
        sent f1 = [(1, SavedEvidences [([9], evidenceOne)]), (2, SavedEvidences [([9], evidenceOne)])]"
    by (auto simp: clientAnswering_def okQuery_def IsOK_def CodeTypeOK_def noEffects_def)
  moreover from AddEvidence_direct_query_and_event [OF b] q
  have "r2 \<noteq> None \<and> sent f2 = []"
    by (auto simp: clientDown_def noEffects_def)
  moreover from b
  have "r2 = Some (Err ''connection refused'') \<and> rpc f2 = [CallABCIQuery tmpop_AddEvidence [1]]"
    by (auto simp: AddEvidence_def sendQuery_def exampleDeps_def clientDown_def noEffects_def)
  ultimately show ?thesis using a b by (cases f1, cases f2) simp
qed

section \<open>Package tmstore: starting the subscription\<close>

definition ErrAlreadySubscribed :: string where
  "ErrAlreadySubscribed = ''already subscribed''"

text \<open>\<open>time.Duration\<close> counts nanoseconds.\<close>

type_synonym Duration = int

definition DefaultWsRetryInterval :: Duration where
  "DefaultWsRetryInterval = 5 * 1000000000"

text \<open>
  What the Tendermint client answers during one run of \<open>StartWebsocket\<close>: whether it
  is running, the error of \<open>Start\<close> and the error of \<open>Subscribe\<close> (\<open>None\<close> is nil).
\<close>

record wsAnswers =
  IsRunning :: bool
  Start :: "error option"
  Subscribe :: "error option"

text \<open>
  \<open>TMStore.StartWebsocket\<close>, as the error it returns. \<open>Start\<close> is called only when the
  client is not running. The event channel and the goroutine that forwards block
  notifications, created between the two calls, do not affect the result and are left
  out.
\<close>

definition StartWebsocket :: "wsAnswers \<Rightarrow> error option" where
  "StartWebsocket c =
     (let err = (if \<not> IsRunning c then Start c else None) in
      if err \<noteq> None \<and> err \<noteq> Some ErrAlreadyStarted then err
      else (let err = Subscribe c in
            if err \<noteq> None \<and> map_option Error err \<noteq> Some ErrAlreadySubscribed then err
            else None))"

text \<open>
  The state of the retry loop: how many times \<open>StartWebsocket\<close> has run, and the
  sleeps made so far. The client's answers to the n-th run (from 0) are \<open>env n\<close>.
\<close>

record retryState =
  attempts :: nat
  sleeps :: "Duration list"

text \<open>
  The function \<open>RetryStartWebsocket\<close> hands to \<open>utils.Retry\<close>: it returns whether to
  retry and the error, and sleeps for the interval after an error that is not "already
  subscribed".
\<close>

definition startAttempt ::
  "(nat \<Rightarrow> wsAnswers) \<Rightarrow> Duration \<Rightarrow> nat \<Rightarrow> retryState
     \<Rightarrow> (bool \<times> error option) \<times> retryState" where
  "startAttempt env interval attempt s =
     (let err = StartWebsocket (env (attempts s));
          s1 = s\<lparr> attempts := attempts s + 1 \<rparr> in
      case err of
        Some e \<Rightarrow>
          if Error e = ErrAlreadySubscribed then ((False, None), s1)
          else ((True, err), s1\<lparr> sleeps := sleeps s1 @ [interval] \<rparr>)
      | None \<Rightarrow> ((True, None), s1))"

text \<open>
  Modelled from the spec: \<open>utils.Retry\<close> is not among the sources, only two calls of
  it are. The spec says the start-up is "retried indefinitely with a fixed retry
  interval on any transient error"; the calls show a function of the attempt number
  that returns (retry, error), and a maximum number of tries, 0 at the call that must
  retry indefinitely. The loop calls the function, stops when it asks not to retry or
  returns no error, and otherwise stops only on a positive maximum that is exceeded.
  A loop that never stops has the value \<open>None\<close>.
\<close>

partial_function (option) Retry ::
  "(nat \<Rightarrow> 's \<Rightarrow> (bool \<times> error option) \<times> 's) \<Rightarrow> nat \<Rightarrow> nat \<Rightarrow> 's
     \<Rightarrow> (error option \<times> 's) option" where
  "Retry fn maxTries attempt s =
     (case fn attempt s of
        ((cont, err), s1) \<Rightarrow>
          if \<not> cont \<or> err = None then Some (err, s1)
          else if maxTries > 0 \<and> attempt + 1 > maxTries then Some (err, s1)
          else Retry fn maxTries (attempt + 1) s1)"

text \<open>\<open>TMStore.RetryStartWebsocket\<close>.\<close>

definition RetryStartWebsocket ::
  "(nat \<Rightarrow> wsAnswers) \<Rightarrow> Duration \<Rightarrow> (error option \<times> retryState) option" where
  "RetryStartWebsocket env interval =
     Retry (startAttempt env interval) 0 1 \<lparr> attempts = 0, sleeps = [] \<rparr>"

text \<open>A run is retried when it returns an error other than "already subscribed".\<close>

definition retried :: "wsAnswers \<Rightarrow> bool" where
  "retried c =
     (case StartWebsocket c of None \<Rightarrow> False | Some e \<Rightarrow> Error e \<noteq> ErrAlreadySubscribed)"

text \<open>
  Concrete answers: a node that refuses the connection, a client that is running and
  answers "already subscribed", a client that is running and whose subscription is
  reset, and a script that fails twice (refused, then reset) before the answer
  "already subscribed".
\<close>

definition answersRefused :: wsAnswers where
  "answersRefused =
     \<lparr> IsRunning = False, Start = Some (Err ''connection refused''), Subscribe = None \<rparr>"

definition answersSubscribed :: wsAnswers where
  "answersSubscribed =
     \<lparr> IsRunning = True, Start = None, Subscribe = Some (Err ''already subscribed'') \<rparr>"

definition answersReset :: wsAnswers where
  "answersReset =
     \<lparr> IsRunning = True, Start = None, Subscribe = Some (Err ''connection reset'') \<rparr>"

definition failTwice :: "nat \<Rightarrow> wsAnswers" where
  "failTwice i =
     (if i = 0 then answersRefused else if i = 1 then answersReset else answersSubscribed)"

subsection \<open>Properties of the subscription start-up\<close>

lemma StartWebsocket_error_iff:
  "(StartWebsocket c = Some e) =
   ((\<not> IsRunning c \<and> Start c = Some e \<and> e \<noteq> ErrAlreadyStarted) \<or>
    ((IsRunning c \<or> Start c = None \<or> Start c = Some ErrAlreadyStarted) \<and>
     Subscribe c = Some e \<and> Error e \<noteq> ErrAlreadySubscribed))"
  by (auto simp: StartWebsocket_def Let_def)

lemma startAttempt_retried:
  "retried (env (attempts s)) \<Longrightarrow>
   \<exists>e. startAttempt env interval a s =
     ((True, Some e), \<lparr> attempts = Suc (attempts s), sleeps = sleeps s @ [interval] \<rparr>)"
  by (cases s) (auto simp: retried_def startAttempt_def Let_def split: option.splits)

lemma startAttempt_settled:
  "\<not> retried (env (attempts s)) \<Longrightarrow>
   \<exists>cont. startAttempt env interval a s =
     ((cont, None), \<lparr> attempts = Suc (attempts s), sleeps = sleeps s \<rparr>)"
  by (cases s) (auto simp: retried_def startAttempt_def Let_def split: option.splits)

text \<open>After \<open>k\<close> retried runs and one that is not, the loop returns nil.\<close>

lemma Retry_returns_after:
  "\<forall>i<k. retried (env (n + i)) \<Longrightarrow> \<not> retried (env (n + k)) \<Longrightarrow>
   Retry (startAttempt env interval) 0 a \<lparr> attempts = n, sleeps = sl \<rparr>
     = Some (None, \<lparr> attempts = Suc (n + k), sleeps = sl @ replicate k interval \<rparr>)"
proof (induction k arbitrary: n a sl)
  case 0
  from startAttempt_settled [of env "\<lparr> attempts = n, sleeps = sl \<rparr>" interval a] 0
  obtain cont where "startAttempt env interval a \<lparr> attempts = n, sleeps = sl \<rparr>
     = ((cont, None), \<lparr> attempts = Suc n, sleeps = sl \<rparr>)" by auto
  then show ?case by (subst Retry.simps) simp
next
  case (Suc k)
  have r: "retried (env n)"
    using Suc.prems(1) by (metis add.right_neutral zero_less_Suc)
  from startAttempt_retried [of env "\<lparr> attempts = n, sleeps = sl \<rparr>" interval a] r
  obtain e where st: "startAttempt env interval a \<lparr> attempts = n, sleeps = sl \<rparr>
     = ((True, Some e), \<lparr> attempts = Suc n, sleeps = sl @ [interval] \<rparr>)" by auto
  have "\<forall>i<k. retried (env (Suc n + i))"
    using Suc.prems(1) by (metis Suc_less_eq add_Suc_shift)
  moreover have "\<not> retried (env (Suc n + k))"
    using Suc.prems(2) by simp
  ultimately have
    "Retry (startAttempt env interval) 0 (a + 1) \<lparr> attempts = Suc n, sleeps = sl @ [interval] \<rparr>
       = Some (None, \<lparr> attempts = Suc (Suc n + k),
                       sleeps = (sl @ [interval]) @ replicate k interval \<rparr>)"
    by (rule Suc.IH)
  then show ?case using st by (subst Retry.simps) (simp add: replicate_append_same)
qed

text \<open>When every run is retried, the loop never returns.\<close>

lemma Retry_never_returns:
  assumes "\<forall>i. retried (env i)"
  shows "Retry (startAttempt env interval) 0 a s = None"
proof (cases "Retry (startAttempt env interval) 0 a s")
  case None
  then show ?thesis .
next
  case (Some y)
  have "startAttempt env interval = startAttempt env interval \<and> (0::nat) = 0 \<longrightarrow> False"
  proof (rule Retry.raw_induct
      [where P = "\<lambda>fn m a s y. fn = startAttempt env interval \<and> m = 0 \<longrightarrow> False", OF _ Some])
    fix R :: "(nat \<Rightarrow> retryState \<Rightarrow> (bool \<times> error option) \<times> retryState) \<Rightarrow> nat \<Rightarrow> nat
                \<Rightarrow> retryState \<Rightarrow> (error option \<times> retryState) option"
    fix fn m a s y
    assume IH: "\<And>fn m a s y. R fn m a s = Some y
                  \<Longrightarrow> fn = startAttempt env interval \<and> m = 0 \<longrightarrow> False"
      and step: "(case fn a s of
                    ((cont, err), s1) \<Rightarrow>
                      if \<not> cont \<or> err = None then Some (err, s1)
                      else if 0 < m \<and> m < a + 1 then Some (err, s1)
                      else R fn m (a + 1) s1) = Some y"
    show "fn = startAttempt env interval \<and> m = 0 \<longrightarrow> False"
    proof
      assume f: "fn = startAttempt env interval \<and> m = 0"
      from startAttempt_retried [of env s interval a] assms
      obtain e where st: "startAttempt env interval a s =
         ((True, Some e), \<lparr> attempts = Suc (attempts s), sleeps = sleeps s @ [interval] \<rparr>)"
        by auto
      from step st f
      have "R fn m (a + 1) \<lparr> attempts = Suc (attempts s), sleeps = sleeps s @ [interval] \<rparr> = Some y"
        by simp
      from IH [OF this] f show False by simp
    qed
  qed
  then show ?thesis by simp
qed

text \<open>
  A run is retried exactly when \<open>Start\<close> (called because the client is not running)
  answers an error other than "already started", or, the client being started,
  \<open>Subscribe\<close> answers an error, and the message of that error is not "already
  subscribed".
\<close>

lemma retried_iff_answers:
  "retried c =
   ((\<not> IsRunning c \<and>
       (\<exists>e. Start c = Some e \<and> e \<noteq> ErrAlreadyStarted \<and> Error e \<noteq> ErrAlreadySubscribed)) \<or>
    ((IsRunning c \<or> Start c = None \<or> Start c = Some ErrAlreadyStarted) \<and>
       (\<exists>e. Subscribe c = Some e \<and> Error e \<noteq> ErrAlreadySubscribed)))"
proof (cases "StartWebsocket c")
  case None
  then show ?thesis
    by (auto simp: retried_def StartWebsocket_def Let_def split: if_splits)
next
  case (Some e)
  then show ?thesis
    using StartWebsocket_error_iff [of c e]
    by (auto simp: retried_def)
qed

text \<open>
  C5. Starting the subscription is idempotent, and retried without bound. All
  hypotheses are about what the Tendermint client answers.
  (1) When \<open>Subscribe\<close> answers "already subscribed" (the client running, or started,
  or already started), \<open>StartWebsocket\<close> returns nil.
  (2) An error of \<open>Start\<close> other than "already started" is returned by
  \<open>StartWebsocket\<close>, and so is an error of \<open>Subscribe\<close> other than "already
  subscribed".
  (3) When in each of the first \<open>k\<close> runs \<open>Start\<close> or \<open>Subscribe\<close> answers such an
  error, whose message is not "already subscribed", and in the next run the client
  starts and \<open>Subscribe\<close> answers nil or "already subscribed" (or \<open>Start\<close> answers
  "already subscribed"), then \<open>RetryStartWebsocket\<close> returns nil after exactly
  \<open>k + 1\<close> runs, having slept the given interval once after each failed run; \<open>k\<close> is
  any number.
  (4) When in every run \<open>Start\<close> or \<open>Subscribe\<close> answers such an error,
  \<open>RetryStartWebsocket\<close> never returns.
\<close>

theorem RetryStartWebsocket_idempotent_and_unbounded:
  "((IsRunning c \<or> Start c = None \<or> Start c = Some ErrAlreadyStarted) \<and>
      Subscribe c = Some e \<and> Error e = ErrAlreadySubscribed
      \<longrightarrow> StartWebsocket c = None) \<and>
   (\<not> IsRunning c \<and> Start c = Some e \<and> e \<noteq> ErrAlreadyStarted
      \<longrightarrow> StartWebsocket c = Some e) \<and>
   ((IsRunning c \<or> Start c = None \<or> Start c = Some ErrAlreadyStarted) \<and>
      Subscribe c = Some e \<and> Error e \<noteq> ErrAlreadySubscribed
      \<longrightarrow> StartWebsocket c = Some e) \<and>
   ((\<forall>i<k.
        (\<not> IsRunning (env i) \<and>
           (\<exists>e. Start (env i) = Some e \<and> e \<noteq> ErrAlreadyStarted \<and>
                Error e \<noteq> ErrAlreadySubscribed)) \<or>
        ((IsRunning (env i) \<or> Start (env i) = None \<or> Start (env i) = Some ErrAlreadyStarted) \<and>
           (\<exists>e. Subscribe (env i) = Some e \<and> Error e \<noteq> ErrAlreadySubscribed))) \<and>
      (((IsRunning (env k) \<or> Start (env k) = None \<or> Start (env k) = Some ErrAlreadyStarted) \<and>
          (Subscribe (env k) = None \<or>
           (\<exists>e. Subscribe (env k) = Some e \<and> Error e = ErrAlreadySubscribed))) \<or>
       (\<not> IsRunning (env k) \<and>
          (\<exists>e. Start (env k) = Some e \<and> e \<noteq> ErrAlreadyStarted \<and>
               Error e = ErrAlreadySubscribed)))
      \<longrightarrow> RetryStartWebsocket env interval
            = Some (None, \<lparr> attempts = Suc k, sleeps = replicate k interval \<rparr>)) \<and>
   ((\<forall>i.
        (\<not> IsRunning (env i) \<and>
           (\<exists>e. Start (env i) = Some e \<and> e \<noteq> ErrAlreadyStarted \<and>
                Error e \<noteq> ErrAlreadySubscribed)) \<or>
        ((IsRunning (env i) \<or> Start (env i) = None \<or> Start (env i) = Some ErrAlreadyStarted) \<and>
           (\<exists>e. Subscribe (env i) = Some e \<and> Error e \<noteq> ErrAlreadySubscribed)))
      \<longrightarrow> RetryStartWebsocket env interval = None)"
proof (intro conjI impI)
  assume "(IsRunning c \<or> Start c = None \<or> Start c = Some ErrAlreadyStarted) \<and>
      Subscribe c = Some e \<and> Error e = ErrAlreadySubscribed"
  then show "StartWebsocket c = None"
    by (auto simp: StartWebsocket_def Let_def)
next
  assume "\<not> IsRunning c \<and> Start c = Some e \<and> e \<noteq> ErrAlreadyStarted"
  then show "StartWebsocket c = Some e"
    by (simp add: StartWebsocket_error_iff)
next
  assume "(IsRunning c \<or> Start c = None \<or> Start c = Some ErrAlreadyStarted) \<and>
      Subscribe c = Some e \<and> Error e \<noteq> ErrAlreadySubscribed"
  then show "StartWebsocket c = Some e"
    by (simp add: StartWebsocket_error_iff)
next
  assume h: "(\<forall>i<k.
        (\<not> IsRunning (env i) \<and>
           (\<exists>e. Start (env i) = Some e \<and> e \<noteq> ErrAlreadyStarted \<and>
                Error e \<noteq> ErrAlreadySubscribed)) \<or>
        ((IsRunning (env i) \<or> Start (env i) = None \<or> Start (env i) = Some ErrAlreadyStarted) \<and>
           (\<exists>e. Subscribe (env i) = Some e \<and> Error e \<noteq> ErrAlreadySubscribed))) \<and>
      (((IsRunning (env k) \<or> Start (env k) = None \<or> Start (env k) = Some ErrAlreadyStarted) \<and>
          (Subscribe (env k) = None \<or>
           (\<exists>e. Subscribe (env k) = Some e \<and> Error e = ErrAlreadySubscribed))) \<or>
       (\<not> IsRunning (env k) \<and>
          (\<exists>e. Start (env k) = Some e \<and> e \<noteq> ErrAlreadyStarted \<and>
               Error e = ErrAlreadySubscribed)))"
  then have a: "\<forall>i<k. retried (env (0 + i))"
    by (simp add: retried_iff_answers)
  from h have b: "\<not> retried (env (0 + k))"
    unfolding retried_iff_answers by auto
  from Retry_returns_after [OF a b, of interval 1 "[]"]
  show "RetryStartWebsocket env interval
            = Some (None, \<lparr> attempts = Suc k, sleeps = replicate k interval \<rparr>)"
    by (simp add: RetryStartWebsocket_def)
next
  assume "\<forall>i.
        (\<not> IsRunning (env i) \<and>
           (\<exists>e. Start (env i) = Some e \<and> e \<noteq> ErrAlreadyStarted \<and>
                Error e \<noteq> ErrAlreadySubscribed)) \<or>
        ((IsRunning (env i) \<or> Start (env i) = None \<or> Start (env i) = Some ErrAlreadyStarted) \<and>
           (\<exists>e. Subscribe (env i) = Some e \<and> Error e \<noteq> ErrAlreadySubscribed))"
  then have "\<forall>i. retried (env i)"
    by (simp add: retried_iff_answers)
  from Retry_never_returns [OF this]
  show "RetryStartWebsocket env interval = None"
    by (simp add: RetryStartWebsocket_def)
qed

theorem RetryStartWebsocket_idempotent_and_unbounded_witness:
  "StartWebsocket answersSubscribed = None \<and>
   StartWebsocket answersRefused = Some (Err ''connection refused'') \<and>
   StartWebsocket answersReset = Some (Err ''connection reset'') \<and>
   RetryStartWebsocket failTwice DefaultWsRetryInterval
     = Some (None, \<lparr> attempts = 3, sleeps = [5000000000, 5000000000] \<rparr>) \<and>
   RetryStartWebsocket (\<lambda>i. answersReset) DefaultWsRetryInterval = None"
proof -
  have ne: "Error (Err ''connection refused'') \<noteq> ErrAlreadySubscribed"
    "Error (Err ''connection reset'') \<noteq> ErrAlreadySubscribed"
    by (simp_all add: ErrAlreadySubscribed_def)
  have a: "(IsRunning answersSubscribed \<or> Start answersSubscribed = None \<or>
            Start answersSubscribed = Some ErrAlreadyStarted) \<and>
           Subscribe answersSubscribed = Some (Err ''already subscribed'') \<and>
           Error (Err ''already subscribed'') = ErrAlreadySubscribed"
    by (simp add: answersSubscribed_def ErrAlreadySubscribed_def)
  have s: "\<not> IsRunning answersRefused \<and> Start answersRefused = Some (Err ''connection refused'') \<and>
           Err ''connection refused'' \<noteq> ErrAlreadyStarted"
    by (simp add: answersRefused_def)
  have u: "(IsRunning answersReset \<or> Start answersReset = None \<or>
            Start answersReset = Some ErrAlreadyStarted) \<and>
           Subscribe answersReset = Some (Err ''connection reset'') \<and>
           Error (Err ''connection reset'') \<noteq> ErrAlreadySubscribed"
    using ne by (simp add: answersReset_def)
  have b: "(\<forall>i<2.
        (\<not> IsRunning (failTwice i) \<and>
           (\<exists>e. Start (failTwice i) = Some e \<and> e \<noteq> ErrAlreadyStarted \<and>
                Error e \<noteq> ErrAlreadySubscribed)) \<or>
        ((IsRunning (failTwice i) \<or> Start (failTwice i) = None \<or>
          Start (failTwice i) = Some ErrAlreadyStarted) \<and>
           (\<exists>e. Subscribe (failTwice i) = Some e \<and> Error e \<noteq> ErrAlreadySubscribed))) \<and>
      (((IsRunning (failTwice 2) \<or> Start (failTwice 2) = None \<or>
         Start (failTwice 2) = Some ErrAlreadyStarted) \<and>
          (Subscribe (failTwice 2) = None \<or>
           (\<exists>e. Subscribe (failTwice 2) = Some e \<and> Error e = ErrAlreadySubscribed))) \<or>
       (\<not> IsRunning (failTwice 2) \<and>
          (\<exists>e. Start (failTwice 2) = Some e \<and> e \<noteq> ErrAlreadyStarted \<and>
               Error e = ErrAlreadySubscribed)))"
    using ne by (simp add: failTwice_def answersRefused_def answersReset_def answersSubscribed_def
        ErrAlreadySubscribed_def less_2_cases_iff)
  have c: "\<forall>i.
        (\<not> IsRunning ((\<lambda>i. answersReset) i) \<and>
           (\<exists>e. Start ((\<lambda>i. answersReset) i) = Some e \<and> e \<noteq> ErrAlreadyStarted \<and>
                Error e \<noteq> ErrAlreadySubscribed)) \<or>
        ((IsRunning ((\<lambda>i. answersReset) i) \<or> Start ((\<lambda>i. answersReset) i) = None \<or>
          Start ((\<lambda>i. answersReset) i) = Some ErrAlreadyStarted) \<and>
           (\<exists>e. Subscribe ((\<lambda>i. answersReset) i) = Some e \<and> Error e \<noteq> ErrAlreadySubscribed))"
    using ne by (simp add: answersReset_def)
  note t1 = RetryStartWebsocket_idempotent_and_unbounded
              [of answersSubscribed "Err ''already subscribed''" 2 failTwice DefaultWsRetryInterval]
  note t2 = RetryStartWebsocket_idempotent_and_unbounded
              [of answersRefused "Err ''connection refused''" 2 failTwice DefaultWsRetryInterval]
  note t3 = RetryStartWebsocket_idempotent_and_unbounded
              [of answersReset "Err ''connection reset''" 0 "\<lambda>i. answersReset"
                 DefaultWsRetryInterval]
  have r1: "StartWebsocket answersSubscribed = None"
    by (rule conjunct1 [OF t1, THEN mp, OF a])
  have r2: "StartWebsocket answersRefused = Some (Err ''connection refused'')"
    by (rule conjunct1 [OF conjunct2 [OF t2], THEN mp, OF s])
  have r3: "StartWebsocket answersReset = Some (Err ''connection reset'')"
    by (rule conjunct1 [OF conjunct2 [OF conjunct2 [OF t3]], THEN mp, OF u])
  have r4: "RetryStartWebsocket failTwice DefaultWsRetryInterval
              = Some (None, \<lparr> attempts = Suc 2, sleeps = replicate 2 DefaultWsRetryInterval \<rparr>)"
    by (rule conjunct1 [OF conjunct2 [OF conjunct2 [OF conjunct2 [OF t1]]], THEN mp, OF b])
  have r5: "RetryStartWebsocket (\<lambda>i. answersReset) DefaultWsRetryInterval = None"
    by (rule conjunct2 [OF conjunct2 [OF conjunct2 [OF conjunct2 [OF t3]]], THEN mp, OF c])
  show ?thesis using r1 r2 r3 r4 r5
    by (simp add: DefaultWsRetryInterval_def numeral_2_eq_2 numeral_3_eq_3)
qed

section \<open>Package postgresstore: the batch\<close>

text \<open>
  The SQL transaction a batch writes in (\<open>database/sql.Tx\<close>), as far as the batch
  uses it: the rows written inside it, which are not in the database yet. The database
  is the list of committed links.
\<close>

record sqlTx =
  pendingRows :: "Link list"

text \<open>
  \<open>sql.Tx.Commit\<close>, a collaborator outside the repository: it fails, leaving the
  database as it was, or it makes every row written in the transaction part of the
  database. Whether it fails is the parameter \<open>failure\<close>.
\<close>

definition sqlTx_Commit :: "error option \<Rightarrow> sqlTx \<Rightarrow> Link list \<Rightarrow> error option \<times> Link list" where
  "sqlTx_Commit failure tx0 db =
     (case failure of
        Some err \<Rightarrow> (Some err, db)
      | None \<Rightarrow> (None, db @ pendingRows tx0))"

text \<open>
  \<open>Batch\<close>. The embedded reader and writer hold prepared statements only. The field
  \<open>done\<close> of the source is \<open>isDone\<close> here.
\<close>

record Batch =
  Links :: "Link list"
  eventChans :: "chan list"
  isDone :: bool
  tx :: sqlTx

text \<open>
  \<open>NewBatch\<close>; preparing the statements (\<open>newBatchStmts\<close>, not among the sources) may
  fail with \<open>stmtsError\<close>.
\<close>

definition NewBatch :: "error option \<Rightarrow> sqlTx \<Rightarrow> chan list \<Rightarrow> error + Batch" where
  "NewBatch stmtsError tx0 chans =
     (case stmtsError of
        Some err \<Rightarrow> Inl err
      | None \<Rightarrow> Inr \<lparr> Links = [], eventChans = chans, isDone = False, tx = tx0 \<rparr>)"

text \<open>
  Modelled from the spec: \<open>writer.CreateLink\<close> of package postgresstore is not among
  the sources. The storage interface of the spec is \<open>PersistLink(link) -> linkHash |
  Error\<close>; \<open>persist\<close> is its outcome for a link, and a persisted link is a row written
  in the transaction.
\<close>

definition writer_CreateLink ::
  "(Link \<Rightarrow> error + Bytes32) \<Rightarrow> Link \<Rightarrow> sqlTx \<Rightarrow> (error + Bytes32) \<times> sqlTx" where
  "writer_CreateLink persist link tx0 =
     (case persist link of
        Inl err \<Rightarrow> (Inl err, tx0)
      | Inr linkHash \<Rightarrow> (Inr linkHash, tx0\<lparr> pendingRows := pendingRows tx0 @ [link] \<rparr>))"

text \<open>
  \<open>Batch.CreateLink\<close>: the link is appended to \<open>Links\<close> first, then written, whatever
  the writer returns.
\<close>

definition Batch_CreateLink ::
  "(Link \<Rightarrow> error + Bytes32) \<Rightarrow> Batch \<Rightarrow> Link \<Rightarrow> (error + Bytes32) \<times> Batch" where
  "Batch_CreateLink persist b link =
     (let b1 = b\<lparr> Links := Links b @ [link] \<rparr> in
      case writer_CreateLink persist link (tx b1) of
        (res, tx1) \<Rightarrow> (res, b1\<lparr> tx := tx1 \<rparr>))"

text \<open>Calling \<open>CreateLink\<close> on each link of a list, in order.\<close>

fun createLinks :: "(Link \<Rightarrow> error + Bytes32) \<Rightarrow> Batch \<Rightarrow> Link list \<Rightarrow> Batch" where
  "createLinks persist b [] = b"
| "createLinks persist b (link # links) =
     createLinks persist (snd (Batch_CreateLink persist b link)) links"

text \<open>What \<open>Write\<close> acts on: the database, and the events sent on channels so far.\<close>

record world =
  database :: "Link list"
  received :: "(chan \<times> Event) list"

text \<open>\<open>Batch.Write\<close>.\<close>

definition Batch_Write :: "error option \<Rightarrow> Batch \<Rightarrow> world \<Rightarrow> error option \<times> Batch \<times> world" where
  "Batch_Write commitFailure b w =
     (let b1 = b\<lparr> isDone := True \<rparr> in
      case sqlTx_Commit commitFailure (tx b1) (database w) of
        (Some err, db1) \<Rightarrow> (Some err, b1, w\<lparr> database := db1 \<rparr>)
      | (None, db1) \<Rightarrow>
          (None, b1,
           w\<lparr> database := db1,
              received := sendAll (eventChans b1) (NewSavedLinks (Links b1)) (received w) \<rparr>))"

text \<open>
  A second link, for evaluation, and a writer that stores \<open>linkSell\<close> and fails on
  every other link before it writes (as when the link cannot be hashed or encoded).
\<close>

definition linkBuy :: Link where
  "linkBuy = \<lparr> State = ''{}'', Meta = \<lparr> Process = ''p'', Type = ''buy'', Refs = [] \<rparr>,
               Signatures = [] \<rparr>"

definition persistSellOnly :: "Link \<Rightarrow> error + Bytes32" where
  "persistSellOnly l = (if l = linkSell then Inr [7] else Inl (Err ''link hash failed''))"

subsection \<open>Properties of the batch\<close>

text \<open>
  What a batch holds after a list of \<open>CreateLink\<close> calls: \<open>Links\<close> has every link
  handed in, the transaction only those the writer stored.
\<close>

lemma createLinks_effect:
  "createLinks persist b links =
     b\<lparr> Links := Links b @ links,
        tx := (tx b)\<lparr> pendingRows := pendingRows (tx b) @ filter (\<lambda>l. \<not> isl (persist l)) links \<rparr> \<rparr>"
proof (induction links arbitrary: b)
  case Nil
  show ?case by simp
next
  case (Cons l links)
  have "snd (Batch_CreateLink persist b l) =
          b\<lparr> Links := Links b @ [l],
             tx := (tx b)\<lparr> pendingRows := pendingRows (tx b) @ filter (\<lambda>l. \<not> isl (persist l)) [l] \<rparr> \<rparr>"
    by (cases "persist l") (simp_all add: Batch_CreateLink_def writer_CreateLink_def Let_def)
  with Cons show ?case by simp
qed

text \<open>
  \<open>Write\<close> for any batch: on a commit error nothing changes and no event is sent; on
  success the database gains the links the writer stored, and every registered channel
  is sent one \<open>SavedLinks\<close> event listing every link handed to \<open>CreateLink\<close>.
\<close>

lemma Batch_Write_any_batch:
  assumes "NewBatch None \<lparr> pendingRows = [] \<rparr> chans = Inr b0"
    and "b = createLinks persist b0 links"
  shows "Batch_Write (Some err) b w = (Some err, b\<lparr> isDone := True \<rparr>, w) \<and>
         Batch_Write None b w =
           (None, b\<lparr> isDone := True \<rparr>,
            \<lparr> database = database w @ filter (\<lambda>l. \<not> isl (persist l)) links,
              received = received w @ map (\<lambda>c. (c, SavedLinks links)) chans \<rparr>)"
proof -
  from assms(1)
  have b0: "b0 = \<lparr> Links = [], eventChans = chans, isDone = False, tx = \<lparr> pendingRows = [] \<rparr> \<rparr>"
    by (simp add: NewBatch_def)
  have b: "b = \<lparr> Links = links, eventChans = chans, isDone = False,
                 tx = \<lparr> pendingRows = filter (\<lambda>l. \<not> isl (persist l)) links \<rparr> \<rparr>"
    unfolding assms(2) createLinks_effect [of persist b0 links] by (simp add: b0)
  show ?thesis
    by (simp add: b Batch_Write_def sqlTx_Commit_def sendAll_map NewSavedLinks_def Let_def)
qed

text \<open>
  C7. Required: \<open>Write\<close> commits all the links created in a batch or none, and on
  success announces exactly those links in one event per channel. The code does
  otherwise after a failed \<open>CreateLink\<close>. Evaluated on a batch with two channels where
  \<open>CreateLink\<close> stores \<open>linkSell\<close> and fails on \<open>linkBuy\<close>: the commit succeeds, the
  database gains \<open>linkSell\<close> only, and the event on each channel lists both links.
\<close>

theorem Batch_Write_after_failed_CreateLink:
  "fst (Batch_CreateLink persistSellOnly
          (snd (Batch_CreateLink persistSellOnly
                  \<lparr> Links = [], eventChans = [1, 2], isDone = False, tx = \<lparr> pendingRows = [] \<rparr> \<rparr>
                  linkSell))
          linkBuy) = Inl (Err ''link hash failed'') \<and>
   Batch_Write None
     (createLinks persistSellOnly
        \<lparr> Links = [], eventChans = [1, 2], isDone = False, tx = \<lparr> pendingRows = [] \<rparr> \<rparr>
        [linkSell, linkBuy])
     \<lparr> database = [], received = [] \<rparr>
     = (None,
        \<lparr> Links = [linkSell, linkBuy], eventChans = [1, 2], isDone = True,
          tx = \<lparr> pendingRows = [linkSell] \<rparr> \<rparr>,
        \<lparr> database = [linkSell],
          received = [(1, SavedLinks [linkSell, linkBuy]), (2, SavedLinks [linkSell, linkBuy])] \<rparr>)"
proof -
  have ne: "linkBuy \<noteq> linkSell"
    by (simp add: linkBuy_def linkSell_def)
  have p: "persistSellOnly linkSell = Inr [7]" "persistSellOnly linkBuy = Inl (Err ''link hash failed'')"
    using ne by (simp_all add: persistSellOnly_def)
  show ?thesis
    by (simp add: p Batch_CreateLink_def writer_CreateLink_def Batch_Write_def sqlTx_Commit_def
          NewSavedLinks_def Let_def)
qed

section \<open>The consensus state machine, from the specification\<close>

text \<open>
  Package \<open>tmpop\<close>, the application the consensus engine drives, is not among the
  sources; only its test cases are (\<open>TestCheckTx\<close>, \<open>TestDeliverTx\<close>, \<open>TestCommitTx\<close>).
  This section follows sections 4.1 to 4.4 of the specification.
\<close>

text \<open>Modelled from the spec: the two validation phases of package \<open>tmpop\<close>.\<close>

datatype phase = Speculative | Final

text \<open>
  Modelled from the spec: the error taxonomy for \<open>tmpop\<close>. A validation error is a
  content error of the rule engine or a reference error naming the missing process and
  link hash; a rejection is a decoding error or a validation error.
\<close>

datatype validationError =
    ContentError error
  | ReferenceError string Bytes32

datatype rejection =
    DecodingError
  | ValidationError validationError

text \<open>Modelled from the spec: the answer of \<open>tmpop\<close> to a transaction, \<open>Accept | Reject(reason)\<close>.\<close>

datatype response = Accept | Reject rejection

text \<open>
  Modelled from the spec: the collaborators of \<open>tmpop\<close>, which the spec leaves
  opaque: the rule engine (\<open>validate(link) -> ok | error\<close>), the link hash (a pure
  function of the link), the decoding of a create-link transaction (\<open>None\<close> for
  malformed bytes), and the function that combines the previous digest with the hashes
  of the newly committed links. The spec does not say what the two transaction
  operations answer to an add-evidence request, so only create-link requests are
  decoded.
\<close>

record app =
  rules :: "Link \<Rightarrow> error option"
  linkHash :: "Link \<Rightarrow> Bytes32"
  decodeTx :: "bytes \<Rightarrow> Link option"
  combineDigest :: "bytes \<Rightarrow> Bytes32 list \<Rightarrow> bytes"

text \<open>Modelled from the spec: the states \<open>Idle\<close> and \<open>BlockOpen\<close> of \<open>tmpop\<close>; committing is one step.\<close>

datatype machine = Idle | BlockOpen

text \<open>
  Modelled from the spec: the state of \<open>tmpop\<close>: the committed store, the links staged
  by the block in progress (in delivery order), the checked-set, the fragments of the
  block's \<open>SavedLinks\<close> event, the events waiting for a drain, and the digest.
\<close>

record appState =
  machine :: machine
  committed :: "Link list"
  staged :: "Link list"
  checked :: "Bytes32 set"
  fragments :: "Link list"
  pendingEvents :: "Event list"
  digest :: bytes

text \<open>
  Modelled from the spec: the two scopes of the reference resolver of \<open>tmpop\<close>.
  \<open>CommittedScope\<close> holds the links committed, and those delivered earlier in the block
  in progress; \<open>CommittedAndCheckedScope\<close> adds the checked-set.
\<close>

definition CommittedScope :: "app \<Rightarrow> appState \<Rightarrow> Bytes32 set" where
  "CommittedScope a s = linkHash a ` (set (committed s) \<union> set (staged s))"

definition CommittedAndCheckedScope :: "app \<Rightarrow> appState \<Rightarrow> Bytes32 set" where
  "CommittedAndCheckedScope a s = CommittedScope a s \<union> checked s"

text \<open>
  Modelled from the spec: \<open>resolve(link, scope)\<close> of \<open>tmpop\<close>: every declared
  reference must be to a link hash in the scope; the first that is not gives the
  reference error.
\<close>

definition resolve :: "Link \<Rightarrow> Bytes32 set \<Rightarrow> validationError option" where
  "resolve link scope =
     (case find (\<lambda>r. refLinkHash r \<notin> scope) (Refs (Meta link)) of
        None \<Rightarrow> None
      | Some r \<Rightarrow> Some (ReferenceError (refProcess r) (refLinkHash r)))"

text \<open>
  Modelled from the spec: \<open>admit(link, phase)\<close> of \<open>tmpop\<close>: the rule engine first,
  then the references, in the scope of the phase.
\<close>

definition admit :: "app \<Rightarrow> Link \<Rightarrow> phase \<Rightarrow> appState \<Rightarrow> validationError option" where
  "admit a link ph s =
     (case rules a link of
        Some err \<Rightarrow> Some (ContentError err)
      | None \<Rightarrow>
          resolve link
            (case ph of
               Speculative \<Rightarrow> CommittedAndCheckedScope a s
             | Final \<Rightarrow> CommittedScope a s))"

text \<open>Modelled from the spec: \<open>BeginBlock\<close> of \<open>tmpop\<close> opens a block.\<close>

definition BeginBlock :: "appState \<Rightarrow> appState" where
  "BeginBlock s = s\<lparr> machine := BlockOpen \<rparr>"

text \<open>
  Modelled from the spec: \<open>CheckTransaction\<close> of \<open>tmpop\<close>: on success the link hash
  joins the checked-set; a rejection changes nothing.
\<close>

definition CheckTransaction :: "app \<Rightarrow> bytes \<Rightarrow> appState \<Rightarrow> response \<times> appState" where
  "CheckTransaction a tx0 s =
     (case decodeTx a tx0 of
        None \<Rightarrow> (Reject DecodingError, s)
      | Some link \<Rightarrow>
          (case admit a link Speculative s of
             Some err \<Rightarrow> (Reject (ValidationError err), s)
           | None \<Rightarrow> (Accept, s\<lparr> checked := insert (linkHash a link) (checked s) \<rparr>)))"

text \<open>
  Modelled from the spec: \<open>DeliverTransaction\<close> of \<open>tmpop\<close>: on success the link is
  staged, visible to later deliveries of the block, and its event fragment is enqueued;
  a rejection changes nothing.
\<close>

definition DeliverTransaction :: "app \<Rightarrow> bytes \<Rightarrow> appState \<Rightarrow> response \<times> appState" where
  "DeliverTransaction a tx0 s =
     (case decodeTx a tx0 of
        None \<Rightarrow> (Reject DecodingError, s)
      | Some link \<Rightarrow>
          (case admit a link Final s of
             Some err \<Rightarrow> (Reject (ValidationError err), s)
           | None \<Rightarrow>
               (Accept, s\<lparr> staged := staged s @ [link], fragments := fragments s @ [link] \<rparr>)))"

text \<open>
  Modelled from the spec: \<open>Commit\<close> of \<open>tmpop\<close>. Without deliveries it returns the
  unchanged digest. Otherwise a storage failure halts the node (\<open>None\<close>); on success
  the staged links join the committed store, the digest is recomputed, the staged and
  checked state is cleared, and the block's fragments become one \<open>SavedLinks\<close> event
  that queries can drain.
\<close>

definition Commit :: "app \<Rightarrow> bool \<Rightarrow> appState \<Rightarrow> (bytes \<times> appState) option" where
  "Commit a storageOk s =
     (if staged s = [] then Some (digest s, s\<lparr> machine := Idle \<rparr>)
      else if \<not> storageOk then None
      else
        (let d = combineDigest a (digest s) (map (linkHash a) (staged s)) in
         Some (d, s\<lparr> machine := Idle,
                     committed := committed s @ staged s,
                     staged := [],
                     checked := {},
                     fragments := [],
                     pendingEvents := pendingEvents s @ [SavedLinks (fragments s)],
                     digest := d \<rparr>)))"

text \<open>
  Modelled from the spec: the query \<open>drain-pending-events\<close> of \<open>tmpop\<close>: it returns the
  events not yet drained and discards them.
\<close>

definition drainPendingEvents :: "appState \<Rightarrow> Event list \<times> appState" where
  "drainPendingEvents s = (pendingEvents s, s\<lparr> pendingEvents := [] \<rparr>)"

text \<open>Delivering the transactions of a block in order, with the answers.\<close>

fun deliverAll :: "app \<Rightarrow> bytes list \<Rightarrow> appState \<Rightarrow> response list \<times> appState" where
  "deliverAll a [] s = ([], s)"
| "deliverAll a (tx0 # txs) s =
     (case DeliverTransaction a tx0 s of
        (r, s1) \<Rightarrow> (case deliverAll a txs s1 of (rs, s2) \<Rightarrow> (r # rs, s2)))"

text \<open>The links of the transactions that were accepted, in delivery order.\<close>

definition deliveredLinks :: "app \<Rightarrow> bytes list \<Rightarrow> response list \<Rightarrow> Link list" where
  "deliveredLinks a txs rs =
     List.map_filter (\<lambda>p. if snd p = Accept then decodeTx a (fst p) else None) (zip txs rs)"

text \<open>
  Concrete values: link \<open>linkA\<close> with hash \<open>[1]\<close>, link \<open>linkB\<close> with hash \<open>[2]\<close> that
  references \<open>linkA\<close>, an application that accepts every content, hashes a link to
  the length of its state, and decodes \<open>[1]\<close> and \<open>[2]\<close> to the two links, and the
  initial state.
\<close>

definition linkA :: Link where
  "linkA = \<lparr> State = ''a'', Meta = \<lparr> Process = ''p'', Type = ''sell'', Refs = [] \<rparr>,
             Signatures = [] \<rparr>"

definition linkB :: Link where
  "linkB = \<lparr> State = ''bb'',
             Meta = \<lparr> Process = ''p'', Type = ''sell'',
                      Refs = [\<lparr> refProcess = ''p'', refLinkHash = [1] \<rparr>] \<rparr>,
             Signatures = [] \<rparr>"

definition toyApp :: app where
  "toyApp =
     \<lparr> rules = (\<lambda>l. None),
       linkHash = (\<lambda>l. [of_nat (length (State l))]),
       decodeTx = (\<lambda>b. if b = [1] then Some linkA else if b = [2] then Some linkB else None),
       combineDigest = (\<lambda>d hs. d @ concat hs) \<rparr>"

definition initState :: appState where
  "initState =
     \<lparr> machine = Idle, committed = [], staged = [], checked = {}, fragments = [],
       pendingEvents = [], digest = [] \<rparr>"

subsection \<open>Properties of the state machine\<close>

lemma find_Some_member: "find P xs = Some x \<Longrightarrow> x \<in> set xs \<and> P x"
  by (induction xs) (auto split: if_splits)

lemma resolve_None:
  "(resolve link scope = None) = (\<forall>r \<in> set (Refs (Meta link)). refLinkHash r \<in> scope)"
proof (cases "find (\<lambda>r. refLinkHash r \<notin> scope) (Refs (Meta link))")
  case None
  have "resolve link scope = None"
    by (simp add: resolve_def None)
  moreover from None have "\<forall>r \<in> set (Refs (Meta link)). refLinkHash r \<in> scope"
    by (simp add: find_None_iff)
  ultimately show ?thesis by simp
next
  case (Some r)
  from find_Some_member [OF Some] show ?thesis by (auto simp: resolve_def Some)
qed

lemma resolve_Some:
  "resolve link scope = Some e \<Longrightarrow>
   \<exists>r \<in> set (Refs (Meta link)).
      refLinkHash r \<notin> scope \<and> e = ReferenceError (refProcess r) (refLinkHash r)"
  by (auto simp: resolve_def split: option.splits dest: find_Some_member)

lemma deliveredLinks_Nil: "deliveredLinks a [] rs = []"
  by (simp add: deliveredLinks_def List.map_filter_simps)

lemma deliveredLinks_Cons:
  "deliveredLinks a (tx0 # txs) (r # rs) =
     (if r = Accept then (case decodeTx a tx0 of None \<Rightarrow> [] | Some l \<Rightarrow> [l]) else [])
       @ deliveredLinks a txs rs"
  by (simp add: deliveredLinks_def List.map_filter_simps split: option.splits)

lemma DeliverTransaction_effect:
  "DeliverTransaction a tx0 s = (r, s1) \<Longrightarrow>
   staged s1 = staged s @ (if r = Accept then (case decodeTx a tx0 of None \<Rightarrow> [] | Some l \<Rightarrow> [l]) else []) \<and>
   fragments s1 = fragments s @ (if r = Accept then (case decodeTx a tx0 of None \<Rightarrow> [] | Some l \<Rightarrow> [l]) else []) \<and>
   pendingEvents s1 = pendingEvents s \<and> committed s1 = committed s"
  by (auto simp: DeliverTransaction_def split: option.splits)

lemma deliverAll_effect:
  "deliverAll a txs s = (rs, s1) \<Longrightarrow>
   staged s1 = staged s @ deliveredLinks a txs rs \<and>
   fragments s1 = fragments s @ deliveredLinks a txs rs \<and>
   pendingEvents s1 = pendingEvents s \<and> committed s1 = committed s"
proof (induction txs arbitrary: s rs s1)
  case Nil
  then show ?case by (simp add: deliveredLinks_Nil)
next
  case (Cons tx0 txs)
  obtain r s' where d: "DeliverTransaction a tx0 s = (r, s')" by (metis surj_pair)
  obtain rs' s'' where da: "deliverAll a txs s' = (rs', s'')" by (metis surj_pair)
  from Cons.prems d da have rs: "rs = r # rs'" and s1: "s1 = s''" by auto
  note e1 = DeliverTransaction_effect [OF d]
  note e2 = Cons.IH [OF da]
  show ?case
    unfolding rs s1 deliveredLinks_Cons using e1 e2 by simp
qed

text \<open>
  C2. Start from a state with nothing staged and nothing waiting to be drained. Open
  a block, deliver transactions, and commit without a storage failure; let \<open>links\<close> be
  the links of the accepted deliveries, in delivery order, at least one. Then one
  drain of the pending events returns exactly one event, \<open>SavedLinks links\<close>, a second
  drain right after it returns nothing, and the committed store has grown by exactly
  \<open>links\<close>.
\<close>

theorem commit_event_completeness:
  assumes "staged s = []" and "fragments s = []" and "pendingEvents s = []"
    and "deliverAll a txs (BeginBlock s) = (rs, s1)"
    and "links = deliveredLinks a txs rs" and "links \<noteq> []"
    and "Commit a storageOk s1 = Some (d, s2)"
  shows "fst (drainPendingEvents s2) = [SavedLinks links] \<and>
         fst (drainPendingEvents (snd (drainPendingEvents s2))) = [] \<and>
         committed s2 = committed s @ links"
proof -
  from deliverAll_effect [OF assms(4)] assms(1-3,5)
  have s1: "staged s1 = links" "fragments s1 = links" "pendingEvents s1 = []" "committed s1 = committed s"
    by (simp_all add: BeginBlock_def)
  with assms(6,7) have "pendingEvents s2 = [SavedLinks links]" "committed s2 = committed s @ links"
    by (auto simp: Commit_def Let_def split: if_splits)
  then show ?thesis by (simp add: drainPendingEvents_def)
qed

theorem commit_event_completeness_witness:
  "\<exists>d s2. Commit toyApp True (snd (deliverAll toyApp [[1], [2], [9]] (BeginBlock initState)))
             = Some (d, s2) \<and>
          fst (drainPendingEvents s2) = [SavedLinks [linkA, linkB]] \<and>
          fst (drainPendingEvents (snd (drainPendingEvents s2))) = []"
proof -
  let ?s1 = "(BeginBlock initState)\<lparr> staged := [linkA, linkB], fragments := [linkA, linkB] \<rparr>"
  have d1: "DeliverTransaction toyApp [1] (BeginBlock initState)
              = (Accept, (BeginBlock initState)\<lparr> staged := [linkA], fragments := [linkA] \<rparr>)"
    by (simp add: DeliverTransaction_def admit_def resolve_def toyApp_def linkA_def
          initState_def BeginBlock_def)
  have d2: "DeliverTransaction toyApp [2] ((BeginBlock initState)\<lparr> staged := [linkA], fragments := [linkA] \<rparr>)
              = (Accept, ?s1)"
    by (simp add: DeliverTransaction_def admit_def resolve_def toyApp_def linkA_def linkB_def
          initState_def BeginBlock_def CommittedScope_def)
  have d3: "DeliverTransaction toyApp [9] ?s1 = (Reject DecodingError, ?s1)"
    by (simp add: DeliverTransaction_def toyApp_def)
  have run: "deliverAll toyApp [[1], [2], [9]] (BeginBlock initState)
               = ([Accept, Accept, Reject DecodingError], ?s1)"
    by (simp add: d1 d2 d3)
  have links: "[linkA, linkB] = deliveredLinks toyApp [[1], [2], [9]] [Accept, Accept, Reject DecodingError]"
    by (simp add: deliveredLinks_Cons deliveredLinks_Nil toyApp_def)
  obtain d s2 where cm: "Commit toyApp True ?s1 = Some (d, s2)"
    by (simp add: Commit_def Let_def)
  have "fst (drainPendingEvents s2) = [SavedLinks [linkA, linkB]] \<and>
        fst (drainPendingEvents (snd (drainPendingEvents s2))) = [] \<and>
        committed s2 = committed initState @ [linkA, linkB]"
    by (rule commit_event_completeness [OF _ _ _ run links _ cm]) (simp_all add: initState_def)
  with cm show ?thesis unfolding run snd_conv by blast
qed

text \<open>
  C1. Let \<open>L2\<close> declare a reference to \<open>L1\<close>, pass the rule engine, and have every
  other reference to a link in committed scope; let \<open>L1\<close> be neither committed nor
  staged. If \<open>L1\<close> has been checked (\<open>CheckTransaction\<close> accepted it), then
  \<open>CheckTransaction\<close> of \<open>L2\<close> accepts, but \<open>DeliverTransaction\<close> of \<open>L2\<close> rejects with the
  validation error that is the reference error naming \<open>L1\<close>'s hash, and changes nothing.
  If instead \<open>L1\<close> has been delivered (accepted) earlier in the block, then
  \<open>DeliverTransaction\<close> of \<open>L2\<close> accepts.
\<close>

theorem two_phase_validation_divergence:
  assumes "decodeTx a tx1 = Some L1" and "decodeTx a tx2 = Some L2"
    and "\<exists>r \<in> set (Refs (Meta L2)). refLinkHash r = linkHash a L1"
    and "rules a L2 = None"
    and "\<forall>r \<in> set (Refs (Meta L2)).
           refLinkHash r = linkHash a L1 \<or> refLinkHash r \<in> CommittedScope a s"
    and "linkHash a L1 \<notin> CommittedScope a s"
  shows "(CheckTransaction a tx1 s = (Accept, s1) \<longrightarrow>
            fst (CheckTransaction a tx2 s1) = Accept \<and>
            (\<exists>p. DeliverTransaction a tx2 s1 =
                   (Reject (ValidationError (ReferenceError p (linkHash a L1))), s1))) \<and>
         (DeliverTransaction a tx1 s = (Accept, s2) \<longrightarrow>
            fst (DeliverTransaction a tx2 s2) = Accept)"
proof (intro conjI impI)
  assume c: "CheckTransaction a tx1 s = (Accept, s1)"
  with assms(1) have s1: "s1 = s\<lparr> checked := insert (linkHash a L1) (checked s) \<rparr>"
    by (auto simp: CheckTransaction_def split: option.splits)
  have sc: "CommittedScope a s1 = CommittedScope a s"
    by (simp add: s1 CommittedScope_def)
  have cc: "CommittedAndCheckedScope a s1 = insert (linkHash a L1) (CommittedScope a s \<union> checked s)"
    by (simp add: CommittedAndCheckedScope_def sc) (simp add: s1)
  have "\<forall>r \<in> set (Refs (Meta L2)). refLinkHash r \<in> CommittedAndCheckedScope a s1"
    unfolding cc using assms(5) by blast
  then have "resolve L2 (CommittedAndCheckedScope a s1) = None"
    by (simp add: resolve_None)
  then show "fst (CheckTransaction a tx2 s1) = Accept"
    by (simp add: CheckTransaction_def assms(2,4) admit_def)
  from assms(3) obtain r0 where "r0 \<in> set (Refs (Meta L2))" "refLinkHash r0 = linkHash a L1"
    by blast
  with assms(6) have "\<not> (\<forall>r \<in> set (Refs (Meta L2)). refLinkHash r \<in> CommittedScope a s1)"
    unfolding sc by metis
  then have "resolve L2 (CommittedScope a s1) \<noteq> None"
    by (simp add: resolve_None)
  then obtain e where e: "resolve L2 (CommittedScope a s1) = Some e" by auto
  from resolve_Some [OF e] assms(5) sc
  obtain p where "e = ReferenceError p (linkHash a L1)" by auto
  with e show "\<exists>p. DeliverTransaction a tx2 s1 =
                   (Reject (ValidationError (ReferenceError p (linkHash a L1))), s1)"
    by (auto simp: DeliverTransaction_def assms(2,4) admit_def)
next
  assume dl: "DeliverTransaction a tx1 s = (Accept, s2)"
  with assms(1) have s2: "s2 = s\<lparr> staged := staged s @ [L1], fragments := fragments s @ [L1] \<rparr>"
    by (auto simp: DeliverTransaction_def split: option.splits)
  have "resolve L2 (CommittedScope a s2) = None"
    using assms(5) by (auto simp: resolve_None s2 CommittedScope_def)
  then show "fst (DeliverTransaction a tx2 s2) = Accept"
    by (simp add: DeliverTransaction_def assms(2,4) admit_def)
qed

theorem two_phase_validation_divergence_witness:
  "fst (CheckTransaction toyApp [2] (snd (CheckTransaction toyApp [1] initState))) = Accept \<and>
   fst (DeliverTransaction toyApp [2] (snd (CheckTransaction toyApp [1] initState)))
     = Reject (ValidationError (ReferenceError ''p'' [1])) \<and>
   fst (DeliverTransaction toyApp [2] (snd (DeliverTransaction toyApp [1] (BeginBlock initState))))
     = Accept"
proof -
  let ?sC = "initState\<lparr> checked := {[1]} \<rparr>"
  let ?sD = "(BeginBlock initState)\<lparr> staged := [linkA], fragments := [linkA] \<rparr>"
  have d1: "decodeTx toyApp [1] = Some linkA" and d2: "decodeTx toyApp [2] = Some linkB"
    by (simp_all add: toyApp_def)
  have ref: "\<exists>r \<in> set (Refs (Meta linkB)). refLinkHash r = linkHash toyApp linkA"
    by (simp add: toyApp_def linkA_def linkB_def)
  have ok: "rules toyApp linkB = None"
    by (simp add: toyApp_def)
  have others: "\<forall>r \<in> set (Refs (Meta linkB)).
      refLinkHash r = linkHash toyApp linkA \<or> refLinkHash r \<in> CommittedScope toyApp s" for s
    by (simp add: toyApp_def linkA_def linkB_def)
  have fresh: "linkHash toyApp linkA \<notin> CommittedScope toyApp initState"
    and fresh': "linkHash toyApp linkA \<notin> CommittedScope toyApp (BeginBlock initState)"
    by (simp_all add: CommittedScope_def initState_def BeginBlock_def)
  have c: "CheckTransaction toyApp [1] initState = (Accept, ?sC)"
    by (simp add: CheckTransaction_def admit_def resolve_def toyApp_def linkA_def initState_def)
  have d: "DeliverTransaction toyApp [1] (BeginBlock initState) = (Accept, ?sD)"
    by (simp add: DeliverTransaction_def admit_def resolve_def toyApp_def linkA_def
          initState_def BeginBlock_def)
  from two_phase_validation_divergence [OF d1 d2 ref ok others fresh, of ?sC] c
  have p1: "fst (CheckTransaction toyApp [2] ?sC) = Accept"
    and p2: "\<exists>p. DeliverTransaction toyApp [2] ?sC =
               (Reject (ValidationError (ReferenceError p (linkHash toyApp linkA))), ?sC)"
    by simp_all
  from two_phase_validation_divergence [OF d1 d2 ref ok others fresh', of _ ?sD] d
  have p3: "fst (DeliverTransaction toyApp [2] ?sD) = Accept"
    by simp
  have p2': "fst (DeliverTransaction toyApp [2] ?sC) = Reject (ValidationError (ReferenceError ''p'' [1]))"
    using p2
    by (simp add: DeliverTransaction_def admit_def resolve_def toyApp_def linkB_def
          CommittedScope_def initState_def)
  show ?thesis using p1 p2' p3 by (simp add: c d)
qed

end
